theory Spec2Isabelle
  imports Main "HOL-Library.Word"
begin

unbundle bit_operations_syntax

section \<open>The long double scalar\<close>

text \<open>
  The stubs of \<^verbatim>\<open>ldouble_stubs.c\<close> look at a \<^verbatim>\<open>long double\<close> in three ways only:
  through \<^verbatim>\<open>fpclassify\<close>, through the comparison operators, and through its storage
  bytes. A value is therefore modelled by the content of its value bits, grouped by IEEE
  class: the sign bit and, where the class has them, the fields that vary. \<open>Subnormal s m\<close>
  has the fraction \<open>m\<close>; \<open>Normal s e m\<close> has the biased exponent field \<open>e\<close> and the
  fraction \<open>m\<close> (the mantissa without its leading bit); \<open>NaN s p\<close> has the fraction \<open>p\<close>,
  its payload. Two values are bit-identical exactly when they are equal as terms.

  The Intel extended format stores the leading bit of the mantissa, so it has bit patterns
  that no IEEE class describes, and the deserialiser can store any of them in a box.
  \<open>Pseudo_denormal s m\<close> has exponent field zero and the leading bit set, with fraction
  \<open>m\<close>: the processor reads it as the normal number with exponent field one and the same
  fraction. \<open>Unnormal s e m\<close> has a nonzero exponent field \<open>e\<close> and the leading bit clear
  (with the largest exponent these are the pseudo-infinities and pseudo-NaNs): the
  processor rejects it as an operand, so that every comparison with it is unordered and
  \<^verbatim>\<open>fpclassify\<close> reports a NaN.
\<close>

datatype ldouble =
    Zero bool
  | Subnormal bool nat
  | Normal bool nat nat
  | Infinity bool
  | NaN bool nat
  | Pseudo_denormal bool nat
  | Unnormal bool nat nat

datatype fpclass = FP_NAN | FP_INFINITE | FP_ZERO | FP_SUBNORMAL | FP_NORMAL

fun fpclassify :: "ldouble \<Rightarrow> fpclass" where
  "fpclassify (Zero s) = FP_ZERO"
| "fpclassify (Subnormal s m) = FP_SUBNORMAL"
| "fpclassify (Normal s e m) = FP_NORMAL"
| "fpclassify (Infinity s) = FP_INFINITE"
| "fpclassify (NaN s p) = FP_NAN"
| "fpclassify (Pseudo_denormal s m) = FP_NORMAL"
| "fpclassify (Unnormal s e m) = FP_NAN"

fun signbit :: "ldouble \<Rightarrow> bool" where
  "signbit (Zero s) = s"
| "signbit (Subnormal s m) = s"
| "signbit (Normal s e m) = s"
| "signbit (Infinity s) = s"
| "signbit (NaN s p) = s"
| "signbit (Pseudo_denormal s m) = s"
| "signbit (Unnormal s e m) = s"

text \<open>
  The magnitude of a value that is not a NaN, as a key ordered lexicographically: the
  class first (zero, subnormal, normal, infinite), then the exponent, then the fraction.
\<close>

fun magnitude :: "ldouble \<Rightarrow> nat \<times> nat \<times> nat" where
  "magnitude (Zero s) = (0, 0, 0)"
| "magnitude (Subnormal s m) = (1, 0, m)"
| "magnitude (Normal s e m) = (2, e, m)"
| "magnitude (Infinity s) = (3, 0, 0)"
| "magnitude (NaN s p) = (4, 0, p)"
| "magnitude (Pseudo_denormal s m) = (2, 1, m)"
| "magnitude (Unnormal s e m) = (4, e, m)"

fun key_less :: "nat \<times> nat \<times> nat \<Rightarrow> nat \<times> nat \<times> nat \<Rightarrow> bool" where
  "key_less (c1, e1, m1) (c2, e2, m2) =
     (c1 < c2 \<or> (c1 = c2 \<and> (e1 < e2 \<or> (e1 = e2 \<and> m1 < m2))))"

definition isnan :: "ldouble \<Rightarrow> bool" where
  "isnan x = (fpclassify x = FP_NAN)"

definition iszero :: "ldouble \<Rightarrow> bool" where
  "iszero x = (fpclassify x = FP_ZERO)"

text \<open>
  The C operators \<^verbatim>\<open><\<close>, \<^verbatim>\<open>>\<close>, \<^verbatim>\<open>==\<close> and \<^verbatim>\<open>!=\<close> on \<^verbatim>\<open>long double\<close>: every
  ordered comparison with a NaN is false, the two zeros are equal, and otherwise the
  order is that of the sign and the magnitude. Two values are equal when they have the
  same sign and magnitude; among the IEEE classes that is when they have the same bits.
\<close>

definition ld_lt :: "ldouble \<Rightarrow> ldouble \<Rightarrow> bool" where
  "ld_lt x y =
     (if isnan x \<or> isnan y then False
      else if iszero x \<and> iszero y then False
      else if signbit x then (if signbit y then key_less (magnitude y) (magnitude x) else True)
      else (if signbit y then False else key_less (magnitude x) (magnitude y)))"

definition ld_gt :: "ldouble \<Rightarrow> ldouble \<Rightarrow> bool" where
  "ld_gt x y = ld_lt y x"

definition ld_eq :: "ldouble \<Rightarrow> ldouble \<Rightarrow> bool" where
  "ld_eq x y =
     (if isnan x \<or> isnan y then False
      else if iszero x \<and> iszero y then True
      else signbit x = signbit y \<and> magnitude x = magnitude y)"

text \<open>The encodings that the IEEE formats share.\<close>

fun canonical :: "ldouble \<Rightarrow> bool" where
  "canonical (Pseudo_denormal s m) = False"
| "canonical (Unnormal s e m) = False"
| "canonical x = True"

definition ld_ne :: "ldouble \<Rightarrow> ldouble \<Rightarrow> bool" where
  "ld_ne x y = (\<not> ld_eq x y)"

section \<open>The platform\<close>

text \<open>
  What the preprocessor and the C implementation fix at build time: the mantissa digit
  count and size of \<^verbatim>\<open>long double\<close>, the byte order, the size of \<^verbatim>\<open>double\<close>, the
  operating system macros the stubs test, and the rounding conversions between
  \<^verbatim>\<open>long double\<close> and \<^verbatim>\<open>double\<close> where the two formats differ.
\<close>

record platform =
  LDBL_MANT_DIG :: nat
  LDOUBLE_STORAGE_BYTES :: nat
  ARCH_BIG_ENDIAN :: bool
  sizeof_double :: nat
  NetBSD :: bool
  ANDROID :: bool
  FreeBSD :: bool
  narrow_to_double :: "ldouble \<Rightarrow> ldouble"
  widen_to_ldouble :: "ldouble \<Rightarrow> ldouble"

definition LDOUBLE_VALUE_BYTES :: "platform \<Rightarrow> nat" where
  "LDOUBLE_VALUE_BYTES plat =
     (if LDBL_MANT_DIG plat = 53 then 8
      else if LDBL_MANT_DIG plat = 64 then 10
      else if LDBL_MANT_DIG plat = 106 then 16
      else if LDBL_MANT_DIG plat = 113 then 16
      else LDOUBLE_STORAGE_BYTES plat)"

text \<open>
  The layout of the value bits. The exponent field has 11 bits when \<^verbatim>\<open>long double\<close> is
  the 64-bit double and 15 bits otherwise; the fraction has one bit less than the
  mantissa; the Intel extended format alone stores the integer bit of the mantissa.
\<close>

definition exp_bits :: "platform \<Rightarrow> nat" where
  "exp_bits plat = (if LDBL_MANT_DIG plat = 53 then 11 else 15)"

definition frac_bits :: "platform \<Rightarrow> nat" where
  "frac_bits plat = LDBL_MANT_DIG plat - 1"

definition int_bit :: "platform \<Rightarrow> bool" where
  "int_bit plat = (LDBL_MANT_DIG plat = 64)"

text \<open>\<^verbatim>\<open>nanl("")\<close>: the positive quiet NaN with no other payload bit set.\<close>

definition nanl_empty :: "platform \<Rightarrow> ldouble" where
  "nanl_empty plat = NaN False (2 ^ (frac_bits plat - 1))"

text \<open>The constant \<^verbatim>\<open>1.0L\<close>: exponent field equal to the bias, fraction zero.\<close>

definition ld_one :: "platform \<Rightarrow> ldouble" where
  "ld_one plat = Normal False (2 ^ (exp_bits plat - 1) - 1) 0"

section \<open>Process state\<close>

text \<open>
  The static \<^verbatim>\<open>nan_\<close> of the stubs (zero until \<^verbatim>\<open>ldouble_init\<close> runs) and the
  runtime's flag \<^verbatim>\<open>caml_compare_unordered\<close>.
\<close>

record state =
  nan_static :: ldouble
  caml_compare_unordered :: bool

definition initial_state :: state where
  "initial_state = \<lparr>nan_static = Zero False, caml_compare_unordered = False\<rparr>"

definition ldouble_init :: "platform \<Rightarrow> state \<Rightarrow> state" where
  "ldouble_init plat st = st\<lparr>nan_static := nanl_empty plat\<rparr>"

section \<open>Normalisation and comparison\<close>

definition norm :: "state \<Rightarrow> ldouble \<Rightarrow> ldouble" where
  "norm st x =
     (case fpclassify x of
        FP_ZERO \<Rightarrow> Zero False
      | FP_NAN \<Rightarrow> nan_static st
      | _ \<Rightarrow> x)"

text \<open>
  \<^verbatim>\<open>ldouble_cmp\<close> returns -1, 0 or 1 and, on the unordered path, stores 1 in
  \<^verbatim>\<open>caml_compare_unordered\<close>; the state after the call is returned with the result.
\<close>

definition ldouble_cmp :: "ldouble \<Rightarrow> ldouble \<Rightarrow> state \<Rightarrow> int \<times> state" where
  "ldouble_cmp u1 u2 st =
     (if ld_lt u1 u2 then (-1, st)
      else if ld_gt u1 u2 then (1, st)
      else if ld_ne u1 u2 then
        (let st' = st\<lparr>caml_compare_unordered := True\<rparr> in
         if ld_eq u1 u1 then (1, st')
         else if ld_eq u2 u2 then (-1, st')
         else (0, st'))
      else (0, st))"

section \<open>Boxed values\<close>

record ldouble_complex =
  creall :: ldouble
  cimagl :: ldouble

text \<open>
  A custom block holds either one \<^verbatim>\<open>long double\<close> or one \<^verbatim>\<open>long double complex\<close>.
  The macro \<^verbatim>\<open>ldouble_custom_val\<close> casts the data pointer to \<^verbatim>\<open>long double *\<close> and
  dereferences it: on a complex block it reads the first of the two elements, which is
  the real part. \<^verbatim>\<open>ldouble_complex_custom_val\<close> reads the whole complex scalar; on a
  scalar block it would read past the data, and the model leaves that case open.
\<close>

datatype "value" = Val_ldouble ldouble | Val_ldouble_complex ldouble_complex

fun ldouble_custom_val :: "value \<Rightarrow> ldouble" where
  "ldouble_custom_val (Val_ldouble x) = x"
| "ldouble_custom_val (Val_ldouble_complex z) = creall z"

fun ldouble_complex_custom_val :: "value \<Rightarrow> ldouble_complex" where
  "ldouble_complex_custom_val (Val_ldouble_complex z) = z"

definition ldouble_cmp_val :: "value \<Rightarrow> value \<Rightarrow> state \<Rightarrow> int \<times> state" where
  "ldouble_cmp_val v1 v2 st =
     (let u1 = ldouble_custom_val v1; u2 = ldouble_custom_val v2
      in ldouble_cmp u1 u2 st)"

text \<open>
  The conversion of a real \<^verbatim>\<open>long double\<close> to \<^verbatim>\<open>long double complex\<close>: the imaginary
  part is positive zero.
\<close>

definition complex_of_ldouble :: "ldouble \<Rightarrow> ldouble_complex" where
  "complex_of_ldouble x = \<lparr>creall = x, cimagl = Zero False\<rparr>"

text \<open>
  \<^verbatim>\<open>ldouble_complex_cmp_val\<close> initialises \<^verbatim>\<open>u1\<close> and \<^verbatim>\<open>u2\<close> with
  \<^verbatim>\<open>ldouble_custom_val\<close>, the scalar accessor, converted to complex.
\<close>

definition ldouble_complex_cmp_val :: "value \<Rightarrow> value \<Rightarrow> state \<Rightarrow> int \<times> state" where
  "ldouble_complex_cmp_val v1 v2 st =
     (let u1 = complex_of_ldouble (ldouble_custom_val v1);
          u2 = complex_of_ldouble (ldouble_custom_val v2);
          (cmp_real, st1) = ldouble_cmp (creall u1) (creall u2) st
      in if cmp_real = 0 then ldouble_cmp (cimagl u1) (cimagl u2) st1
         else (cmp_real, st1))"

section \<open>Storage bytes\<close>

type_synonym byte = "8 word"

primrec le_bytes :: "nat \<Rightarrow> nat \<Rightarrow> byte list" where
  "le_bytes 0 n = []"
| "le_bytes (Suc k) n = of_nat (n mod 256) # le_bytes k (n div 256)"

fun le_nat :: "byte list \<Rightarrow> nat" where
  "le_nat [] = 0"
| "le_nat (b # bs) = unat b + 256 * le_nat bs"

text \<open>
  The value bits of a binary floating-point datum with an exponent field of \<open>E\<close> bits, a
  fraction of \<open>F\<close> bits and, when \<open>ib\<close> holds, a stored integer bit above the fraction.
\<close>

fun exp_field :: "nat \<Rightarrow> ldouble \<Rightarrow> nat" where
  "exp_field E (Zero s) = 0"
| "exp_field E (Subnormal s m) = 0"
| "exp_field E (Normal s e m) = e"
| "exp_field E (Infinity s) = 2 ^ E - 1"
| "exp_field E (NaN s p) = 2 ^ E - 1"
| "exp_field E (Pseudo_denormal s m) = 0"
| "exp_field E (Unnormal s e m) = e"

fun mant_field :: "nat \<Rightarrow> bool \<Rightarrow> ldouble \<Rightarrow> nat" where
  "mant_field F ib (Zero s) = 0"
| "mant_field F ib (Subnormal s m) = m"
| "mant_field F ib (Normal s e m) = (if ib then 2 ^ F else 0) + m"
| "mant_field F ib (Infinity s) = (if ib then 2 ^ F else 0)"
| "mant_field F ib (NaN s p) = (if ib then 2 ^ F else 0) + p"
| "mant_field F ib (Pseudo_denormal s m) = 2 ^ F + m"
| "mant_field F ib (Unnormal s e m) = m"

definition mant_width :: "nat \<Rightarrow> bool \<Rightarrow> nat" where
  "mant_width F ib = (if ib then F + 1 else F)"

definition fp_bits :: "nat \<Rightarrow> nat \<Rightarrow> bool \<Rightarrow> ldouble \<Rightarrow> nat" where
  "fp_bits E F ib x =
     (if signbit x then 2 ^ (E + mant_width F ib) else 0)
       + exp_field E x * 2 ^ mant_width F ib + mant_field F ib x"

text \<open>
  Reading the value bits back. With a stored integer bit, \<open>j\<close> tells whether it is set; a
  format without one has no pseudo-denormals and no unnormals.
\<close>

definition fp_of_bits :: "nat \<Rightarrow> nat \<Rightarrow> bool \<Rightarrow> nat \<Rightarrow> ldouble" where
  "fp_of_bits E F ib n =
     (let s = ((n div 2 ^ (E + mant_width F ib)) mod 2 = 1);
          e = (n div 2 ^ mant_width F ib) mod 2 ^ E;
          j = ((n mod 2 ^ mant_width F ib) div 2 ^ F = 1);
          f = n mod 2 ^ F
      in if e = 0 then
           (if ib \<and> j then Pseudo_denormal s f
            else if f = 0 then Zero s
            else Subnormal s f)
         else if ib \<and> \<not> j then Unnormal s e f
         else if e = 2 ^ E - 1 then (if f = 0 then Infinity s else NaN s f)
         else Normal s e f)"

text \<open>
  The values whose fields fit the format. Every pattern of the value bits is the pattern
  of exactly one of them.
\<close>

fun fp_valid :: "nat \<Rightarrow> nat \<Rightarrow> bool \<Rightarrow> ldouble \<Rightarrow> bool" where
  "fp_valid E F ib (Zero s) = True"
| "fp_valid E F ib (Subnormal s m) = (0 < m \<and> m < 2 ^ F)"
| "fp_valid E F ib (Normal s e m) = (0 < e \<and> e < 2 ^ E - 1 \<and> m < 2 ^ F)"
| "fp_valid E F ib (Infinity s) = True"
| "fp_valid E F ib (NaN s p) = (0 < p \<and> p < 2 ^ F)"
| "fp_valid E F ib (Pseudo_denormal s m) = (ib \<and> m < 2 ^ F)"
| "fp_valid E F ib (Unnormal s e m) = (ib \<and> 0 < e \<and> e < 2 ^ E \<and> m < 2 ^ F)"


text \<open>
  The object representation of a \<^verbatim>\<open>long double\<close>, without its padding: the
  \<^verbatim>\<open>LDOUBLE_VALUE_BYTES\<close> bytes of the value bits in the byte order of the platform.
\<close>

definition native_order :: "platform \<Rightarrow> byte list \<Rightarrow> byte list" where
  "native_order plat bs = (if ARCH_BIG_ENDIAN plat then rev bs else bs)"

definition ld_mem :: "platform \<Rightarrow> ldouble \<Rightarrow> byte list" where
  "ld_mem plat x =
     native_order plat
       (le_bytes (LDOUBLE_VALUE_BYTES plat)
          (fp_bits (exp_bits plat) (frac_bits plat) (int_bit plat) x))"

definition ld_of_mem :: "platform \<Rightarrow> byte list \<Rightarrow> ldouble" where
  "ld_of_mem plat bs =
     fp_of_bits (exp_bits plat) (frac_bits plat) (int_bit plat)
       (le_nat (native_order plat bs))"

text \<open>
  \<^verbatim>\<open>double\<close>: the 64-bit format, or the 32-bit one where \<^verbatim>\<open>sizeof(double)\<close> is 4.
  The casts \<^verbatim>\<open>(double) x\<close> and \<^verbatim>\<open>(long double) d\<close> change nothing where
  \<^verbatim>\<open>long double\<close> is that same format; elsewhere they are the platform's conversions.
\<close>

definition dbl_exp_bits :: "platform \<Rightarrow> nat" where
  "dbl_exp_bits plat = (if sizeof_double plat = 4 then 8 else 11)"

definition dbl_frac_bits :: "platform \<Rightarrow> nat" where
  "dbl_frac_bits plat = (if sizeof_double plat = 4 then 23 else 52)"

definition same_as_double :: "platform \<Rightarrow> bool" where
  "same_as_double plat =
     (exp_bits plat = dbl_exp_bits plat \<and> frac_bits plat = dbl_frac_bits plat
      \<and> \<not> int_bit plat)"

definition double_of_ldouble :: "platform \<Rightarrow> ldouble \<Rightarrow> ldouble" where
  "double_of_ldouble plat x = (if same_as_double plat then x else narrow_to_double plat x)"

definition ldouble_of_double :: "platform \<Rightarrow> ldouble \<Rightarrow> ldouble" where
  "ldouble_of_double plat d = (if same_as_double plat then d else widen_to_ldouble plat d)"

section \<open>Errors\<close>

text \<open>
  The exceptions the stubs raise through the runtime: \<^verbatim>\<open>caml_failwith\<close>,
  \<^verbatim>\<open>caml_invalid_argument\<close>, \<^verbatim>\<open>caml_deserialize_error\<close> and
  \<^verbatim>\<open>caml_raise_out_of_memory\<close>. \<open>Input_exhausted\<close> stands for a read past the end of
  the input, which the runtime's reader does not check.
\<close>

datatype error =
    Failure string
  | Invalid_argument string
  | Deserialize_error string
  | Out_of_memory
  | Input_exhausted

section \<open>The runtime's output and input buffers\<close>

text \<open>
  The output buffer is the list of bytes written so far. The block writers store each
  element most significant byte first, so they reverse every element on a little-endian
  platform; \<^verbatim>\<open>caml_serialize_float_8\<close> stores a double least significant byte first.
\<close>

fun swap_blocks :: "nat \<Rightarrow> nat \<Rightarrow> byte list \<Rightarrow> byte list" where
  "swap_blocks sz 0 p = []"
| "swap_blocks sz (Suc n) p = rev (take sz p) @ swap_blocks sz n (drop sz p)"

definition wire_blocks :: "platform \<Rightarrow> nat \<Rightarrow> nat \<Rightarrow> byte list \<Rightarrow> byte list" where
  "wire_blocks plat sz len p =
     (if ARCH_BIG_ENDIAN plat then take (sz * len) p else swap_blocks sz len p)"

definition caml_serialize_int_1 :: "nat \<Rightarrow> byte list \<Rightarrow> byte list" where
  "caml_serialize_int_1 i out = out @ [of_nat i]"

definition caml_serialize_block_8 :: "platform \<Rightarrow> byte list \<Rightarrow> nat \<Rightarrow> byte list \<Rightarrow> byte list" where
  "caml_serialize_block_8 plat p len out = out @ wire_blocks plat 8 len p"

definition caml_serialize_block_2 :: "platform \<Rightarrow> byte list \<Rightarrow> nat \<Rightarrow> byte list \<Rightarrow> byte list" where
  "caml_serialize_block_2 plat p len out = out @ wire_blocks plat 2 len p"

definition caml_serialize_float_4 :: "ldouble \<Rightarrow> byte list \<Rightarrow> byte list" where
  "caml_serialize_float_4 f out = out @ rev (le_bytes 4 (fp_bits 8 23 False f))"

definition caml_serialize_float_8 :: "ldouble \<Rightarrow> byte list \<Rightarrow> byte list" where
  "caml_serialize_float_8 d out = out @ le_bytes 8 (fp_bits 11 52 False d)"

text \<open>The readers take the remaining input and return what they read with the rest.\<close>

definition caml_deserialize_uint_1 :: "byte list \<Rightarrow> error + nat \<times> byte list" where
  "caml_deserialize_uint_1 src =
     (case src of [] \<Rightarrow> Inl Input_exhausted | b # rest \<Rightarrow> Inr (unat b, rest))"

definition read_blocks :: "platform \<Rightarrow> nat \<Rightarrow> nat \<Rightarrow> byte list \<Rightarrow> error + byte list \<times> byte list" where
  "read_blocks plat sz len src =
     (if length src < sz * len then Inl Input_exhausted
      else Inr (wire_blocks plat sz len src, drop (sz * len) src))"

definition caml_deserialize_block_8 :: "platform \<Rightarrow> nat \<Rightarrow> byte list \<Rightarrow> error + byte list \<times> byte list" where
  "caml_deserialize_block_8 plat len src = read_blocks plat 8 len src"

definition caml_deserialize_block_2 :: "platform \<Rightarrow> nat \<Rightarrow> byte list \<Rightarrow> error + byte list \<times> byte list" where
  "caml_deserialize_block_2 plat len src = read_blocks plat 2 len src"

definition caml_deserialize_float_4 :: "byte list \<Rightarrow> error + ldouble \<times> byte list" where
  "caml_deserialize_float_4 src =
     (if length src < 4 then Inl Input_exhausted
      else Inr (fp_of_bits 8 23 False (le_nat (rev (take 4 src))), drop 4 src))"

definition caml_deserialize_float_8 :: "byte list \<Rightarrow> error + ldouble \<times> byte list" where
  "caml_deserialize_float_8 src =
     (if length src < 8 then Inl Input_exhausted
      else Inr (fp_of_bits 11 52 False (le_nat (take 8 src)), drop 8 src))"

section \<open>Serialisation\<close>

text \<open>
  \<^verbatim>\<open>ldouble_serialize_data\<close> writes the bytes of \<^verbatim>\<open>*q\<close> and returns their number,
  here together with the output buffer.
\<close>

definition ldouble_serialize_data :: "platform \<Rightarrow> ldouble \<Rightarrow> byte list \<Rightarrow> byte list \<times> nat" where
  "ldouble_serialize_data plat q out =
     (let p = ld_mem plat q in
      if LDOUBLE_VALUE_BYTES plat = 16 then (caml_serialize_block_8 plat p 2 out, 16)
      else if LDOUBLE_VALUE_BYTES plat = 10 then
        (let out1 = caml_serialize_block_8 plat p 1 out
         in (caml_serialize_block_2 plat (drop 8 p) 1 out1, 10))
      else
        (let d = double_of_ldouble plat q
         in (if sizeof_double plat = 4 then caml_serialize_float_4 d out
             else caml_serialize_float_8 d out,
             sizeof_double plat)))"

text \<open>The result is the output buffer and the two sizes stored through the pointers.\<close>

definition ldouble_serialize :: "platform \<Rightarrow> state \<Rightarrow> value \<Rightarrow> byte list \<Rightarrow> byte list \<times> nat \<times> nat" where
  "ldouble_serialize plat st v out =
     (let p = norm st (ldouble_custom_val v);
          out1 = caml_serialize_int_1 (LDBL_MANT_DIG plat) out;
          (out2, sz) = ldouble_serialize_data plat p out1
      in (out2, 1 + sz, 1 + sz))"

text \<open>
  \<^verbatim>\<open>ldouble_deserialize_data\<close> fills \<^verbatim>\<open>*q\<close>: the result is the value stored there,
  the number of bytes and the remaining input.
\<close>

definition ldouble_deserialize_data :: "platform \<Rightarrow> byte list \<Rightarrow> error + ldouble \<times> nat \<times> byte list" where
  "ldouble_deserialize_data plat src =
     (if LDOUBLE_VALUE_BYTES plat = 16 then
        (case caml_deserialize_block_8 plat 2 src of
           Inl e \<Rightarrow> Inl e
         | Inr (p, src1) \<Rightarrow> Inr (ld_of_mem plat p, 16, src1))
      else if LDOUBLE_VALUE_BYTES plat = 10 then
        (case caml_deserialize_block_8 plat 1 src of
           Inl e \<Rightarrow> Inl e
         | Inr (p0, src1) \<Rightarrow>
             (case caml_deserialize_block_2 plat 1 src1 of
                Inl e \<Rightarrow> Inl e
              | Inr (p8, src2) \<Rightarrow> Inr (ld_of_mem plat (p0 @ p8), 10, src2)))
      else
        (case (if sizeof_double plat = 4 then caml_deserialize_float_4 src
               else caml_deserialize_float_8 src) of
           Inl e \<Rightarrow> Inl e
         | Inr (d, src1) \<Rightarrow> Inr (ldouble_of_double plat d, sizeof_double plat, src1)))"

text \<open>
  The deserialisers take the content of the destination \<^verbatim>\<open>d\<close> and the remaining input,
  and return the outcome (an exception, or the size), the content of the destination
  and the remaining input after the call.
\<close>

definition ldouble_deserialize :: "platform \<Rightarrow> ldouble \<Rightarrow> byte list \<Rightarrow> (error + nat) \<times> ldouble \<times> byte list" where
  "ldouble_deserialize plat d src =
     (case caml_deserialize_uint_1 src of
        Inl e \<Rightarrow> (Inl e, d, src)
      | Inr (tag, src1) \<Rightarrow>
          if tag \<noteq> LDBL_MANT_DIG plat
          then (Inl (Deserialize_error ''invalid long double size''), d, src1)
          else (case ldouble_deserialize_data plat src1 of
                  Inl e \<Rightarrow> (Inl e, d, src1)
                | Inr (x, sz, src2) \<Rightarrow> (Inr (1 + sz), x, src2)))"

section \<open>Hashing\<close>

text \<open>
  The union of \<^verbatim>\<open>ldouble_mix_hash\<close> overlays the normalised value with an array of
  32-bit words. Its bytes are the value bytes followed by the padding of the
  \<^verbatim>\<open>long double\<close>, whose content the assignment leaves unspecified: it is the argument
  \<open>pad\<close>. \<^verbatim>\<open>caml_hash_mix_uint32\<close> and \<^verbatim>\<open>caml_hash_mix_double\<close> belong to the
  runtime and are the arguments \<open>mix\<close> and \<open>mixd\<close>.
\<close>

definition load32 :: "platform \<Rightarrow> byte list \<Rightarrow> nat \<Rightarrow> 32 word" where
  "load32 plat mem i = of_nat (le_nat (native_order plat (take 4 (drop (4 * i) mem))))"

definition ldouble_mix_hash ::
  "platform \<Rightarrow> state \<Rightarrow> (32 word \<Rightarrow> 32 word \<Rightarrow> 32 word) \<Rightarrow> (32 word \<Rightarrow> ldouble \<Rightarrow> 32 word)
     \<Rightarrow> byte list \<Rightarrow> 32 word \<Rightarrow> ldouble \<Rightarrow> 32 word" where
  "ldouble_mix_hash plat st mix mixd pad hash d =
     (let u = ld_mem plat (norm st d) @ pad;
          a = load32 plat u
      in if LDOUBLE_VALUE_BYTES plat = 16 then
           (if ARCH_BIG_ENDIAN plat
            then mix (mix (mix (mix hash (a 0)) (a 1)) (a 2)) (a 3)
            else mix (mix (mix (mix hash (a 1)) (a 0)) (a 3)) (a 2))
         else if LDOUBLE_VALUE_BYTES plat = 10 then
           mix (mix (mix hash (a 0)) (a 1)) (a 2 AND 0xFFFF)
         else mixd hash (double_of_ldouble plat d))"

definition ldouble_hash ::
  "platform \<Rightarrow> state \<Rightarrow> (32 word \<Rightarrow> 32 word \<Rightarrow> 32 word) \<Rightarrow> (32 word \<Rightarrow> ldouble \<Rightarrow> 32 word)
     \<Rightarrow> byte list \<Rightarrow> value \<Rightarrow> 32 word" where
  "ldouble_hash plat st mix mixd pad v =
     ldouble_mix_hash plat st mix mixd pad 0 (ldouble_custom_val v)"

text \<open>The two calls of the complex hash have a union each: \<open>pad1\<close> and \<open>pad2\<close>.\<close>

definition ldouble_complex_hash ::
  "platform \<Rightarrow> state \<Rightarrow> (32 word \<Rightarrow> 32 word \<Rightarrow> 32 word) \<Rightarrow> (32 word \<Rightarrow> ldouble \<Rightarrow> 32 word)
     \<Rightarrow> byte list \<Rightarrow> byte list \<Rightarrow> value \<Rightarrow> 32 word" where
  "ldouble_complex_hash plat st mix mixd pad1 pad2 v =
     (let c = ldouble_complex_custom_val v
      in ldouble_mix_hash plat st mix mixd pad2
           (ldouble_mix_hash plat st mix mixd pad1 0 (creall c)) (cimagl c))"

section \<open>The complex scalar\<close>

text \<open>
  \<^verbatim>\<open>re + (im * I)\<close> has a real operand on the left of both operators and the complex
  constant \<^verbatim>\<open>I\<close>, whose real part is zero and whose imaginary part is one. The product
  of a real and a complex is taken part by part, and the sum adds the real operand to
  the real part only. So the real part of the result is \<^verbatim>\<open>re + im * 0.0L\<close> and its
  imaginary part is \<^verbatim>\<open>im * 1.0L\<close>. The three functions below are these operations where
  IEEE arithmetic gives an exact result: the product of a finite value and zero is a zero
  with the sign of the value, a sum of two zeros is negative only when both are, and
  adding a zero to another value leaves the value. Where the result is a NaN (an
  infinity times zero, a NaN operand) its bits depend on the implementation, and the
  functions are left open there.
\<close>

fun ld_mul_zero :: "ldouble \<Rightarrow> ldouble" where
  "ld_mul_zero (Zero s) = Zero s"
| "ld_mul_zero (Subnormal s m) = Zero s"
| "ld_mul_zero (Normal s e m) = Zero s"

fun ld_mul_one :: "ldouble \<Rightarrow> ldouble" where
  "ld_mul_one (Zero s) = Zero s"
| "ld_mul_one (Subnormal s m) = Subnormal s m"
| "ld_mul_one (Normal s e m) = Normal s e m"
| "ld_mul_one (Infinity s) = Infinity s"

fun ld_add_zero :: "ldouble \<Rightarrow> ldouble \<Rightarrow> ldouble" where
  "ld_add_zero (Zero s) (Zero t) = Zero (s \<and> t)"
| "ld_add_zero (Subnormal s m) (Zero t) = Subnormal s m"
| "ld_add_zero (Normal s e m) (Zero t) = Normal s e m"
| "ld_add_zero (Infinity s) (Zero t) = Infinity s"

definition real_times_I :: "ldouble \<Rightarrow> ldouble_complex" where
  "real_times_I im = \<lparr>creall = ld_mul_zero im, cimagl = ld_mul_one im\<rparr>"

definition real_plus_complex :: "ldouble \<Rightarrow> ldouble_complex \<Rightarrow> ldouble_complex" where
  "real_plus_complex re z = \<lparr>creall = ld_add_zero re (creall z), cimagl = cimagl z\<rparr>"

definition ctypes_copy_ldouble :: "ldouble \<Rightarrow> value" where
  "ctypes_copy_ldouble u = Val_ldouble u"

definition ctypes_copy_ldouble_complex :: "ldouble_complex \<Rightarrow> value" where
  "ctypes_copy_ldouble_complex u = Val_ldouble_complex u"




section \<open>The complex codec\<close>

text \<open>
  \<^verbatim>\<open>ldouble_complex_serialize\<close> declares \<^verbatim>\<open>p\<close> as a pointer to \<^verbatim>\<open>long double\<close>, so
  \<^verbatim>\<open>*p\<close> is the first element of the block, the real part, and \<^verbatim>\<open>creall(*p)\<close> and
  \<^verbatim>\<open>cimagl(*p)\<close> are the two parts of its conversion to complex.
\<close>

definition ldouble_complex_serialize :: "platform \<Rightarrow> value \<Rightarrow> byte list \<Rightarrow> byte list \<times> nat \<times> nat" where
  "ldouble_complex_serialize plat v out =
     (let p = ldouble_custom_val v;
          out0 = caml_serialize_int_1 (LDBL_MANT_DIG plat) out;
          re = creall (complex_of_ldouble p);
          (out1, sz1) = ldouble_serialize_data plat re out0;
          im = cimagl (complex_of_ldouble p);
          (out2, sz2) = ldouble_serialize_data plat im out1
      in (out2, 1 + (sz1 + sz2), 1 + (sz1 + sz2)))"

definition ldouble_complex_deserialize ::
  "platform \<Rightarrow> ldouble_complex \<Rightarrow> byte list \<Rightarrow> (error + nat) \<times> ldouble_complex \<times> byte list" where
  "ldouble_complex_deserialize plat d src =
     (case caml_deserialize_uint_1 src of
        Inl e \<Rightarrow> (Inl e, d, src)
      | Inr (tag, src0) \<Rightarrow>
          if tag \<noteq> LDBL_MANT_DIG plat
          then (Inl (Deserialize_error ''invalid long double size''), d, src0)
          else (case ldouble_deserialize_data plat src0 of
                  Inl e \<Rightarrow> (Inl e, d, src0)
                | Inr (re, sz1, src1) \<Rightarrow>
                    (case ldouble_deserialize_data plat src1 of
                       Inl e \<Rightarrow> (Inl e, d, src1)
                     | Inr (im, sz2, src2) \<Rightarrow>
                         (Inr (1 + (sz1 + sz2)), real_plus_complex re (real_times_I im), src2))))"

section \<open>Functions of libm\<close>

text \<open>
  The macros \<^verbatim>\<open>FN1\<close>, \<^verbatim>\<open>FN2\<close>, \<^verbatim>\<open>FN1FAIL\<close> and \<^verbatim>\<open>FN2FAIL\<close>, in their scalar and
  their complex version. The function of libm is an argument; the failing macros take
  its name, which \<^verbatim>\<open>#OP\<close> pastes into the message.
\<close>

definition FN1 :: "(ldouble \<Rightarrow> ldouble) \<Rightarrow> value \<Rightarrow> error + value" where
  "FN1 OP a = Inr (ctypes_copy_ldouble (OP (ldouble_custom_val a)))"

definition FN2 :: "(ldouble \<Rightarrow> ldouble \<Rightarrow> ldouble) \<Rightarrow> value \<Rightarrow> value \<Rightarrow> error + value" where
  "FN2 OP a b = Inr (ctypes_copy_ldouble (OP (ldouble_custom_val a) (ldouble_custom_val b)))"

definition FN1FAIL :: "string \<Rightarrow> value \<Rightarrow> error + value" where
  "FN1FAIL OP a = Inl (Failure (''ctypes: '' @ OP @ '' does not exist on current platform''))"

definition FN2FAIL :: "string \<Rightarrow> value \<Rightarrow> value \<Rightarrow> error + value" where
  "FN2FAIL OP a b = Inl (Failure (''ctypes: '' @ OP @ '' does not exist on current platform''))"

definition complex_FN1 :: "(ldouble_complex \<Rightarrow> ldouble_complex) \<Rightarrow> value \<Rightarrow> error + value" where
  "complex_FN1 OP a = Inr (ctypes_copy_ldouble_complex (OP (ldouble_complex_custom_val a)))"

definition complex_FN2 ::
  "(ldouble_complex \<Rightarrow> ldouble_complex \<Rightarrow> ldouble_complex) \<Rightarrow> value \<Rightarrow> value \<Rightarrow> error + value" where
  "complex_FN2 OP a b =
     Inr (ctypes_copy_ldouble_complex
            (OP (ldouble_complex_custom_val a) (ldouble_complex_custom_val b)))"

definition complex_FN1FAIL :: "string \<Rightarrow> value \<Rightarrow> error + value" where
  "complex_FN1FAIL OP a =
     Inl (Failure (''ctypes: '' @ OP @ '' does not exist on current platform''))"

definition complex_FN2FAIL :: "string \<Rightarrow> value \<Rightarrow> value \<Rightarrow> error + value" where
  "complex_FN2FAIL OP a b =
     Inl (Failure (''ctypes: '' @ OP @ '' does not exist on current platform''))"

definition ctypes_ldouble_expm1l :: "platform \<Rightarrow> (ldouble \<Rightarrow> ldouble) \<Rightarrow> value \<Rightarrow> error + value" where
  "ctypes_ldouble_expm1l plat expm1l a =
     (if NetBSD plat then FN1FAIL ''expm1l'' a else FN1 expm1l a)"

definition ctypes_ldouble_log1pl :: "platform \<Rightarrow> (ldouble \<Rightarrow> ldouble) \<Rightarrow> value \<Rightarrow> error + value" where
  "ctypes_ldouble_log1pl plat log1pl a =
     (if NetBSD plat then FN1FAIL ''log1pl'' a else FN1 log1pl a)"

definition ctypes_ldouble_remainderl ::
  "platform \<Rightarrow> (ldouble \<Rightarrow> ldouble \<Rightarrow> ldouble) \<Rightarrow> value \<Rightarrow> value \<Rightarrow> error + value" where
  "ctypes_ldouble_remainderl plat remainderl a b =
     (if NetBSD plat then FN2FAIL ''remainderl'' a b else FN2 remainderl a b)"

definition ctypes_ldouble_complex_cexpl ::
  "platform \<Rightarrow> (ldouble_complex \<Rightarrow> ldouble_complex) \<Rightarrow> value \<Rightarrow> error + value" where
  "ctypes_ldouble_complex_cexpl plat cexpl a =
     (if ANDROID plat \<or> FreeBSD plat then complex_FN1FAIL ''cexpl'' a else complex_FN1 cexpl a)"

definition ctypes_ldouble_complex_clogl ::
  "platform \<Rightarrow> (ldouble_complex \<Rightarrow> ldouble_complex) \<Rightarrow> value \<Rightarrow> error + value" where
  "ctypes_ldouble_complex_clogl plat clogl a =
     (if ANDROID plat \<or> FreeBSD plat then complex_FN1FAIL ''clogl'' a else complex_FN1 clogl a)"

definition ctypes_ldouble_complex_cpowl ::
  "platform \<Rightarrow> (ldouble_complex \<Rightarrow> ldouble_complex \<Rightarrow> ldouble_complex) \<Rightarrow> value \<Rightarrow> value
     \<Rightarrow> error + value" where
  "ctypes_ldouble_complex_cpowl plat cpowl a b =
     (if ANDROID plat \<or> FreeBSD plat then complex_FN2FAIL ''cpowl'' a b
      else complex_FN2 cpowl a b)"

section \<open>Parsing\<close>

text \<open>
  An OCaml string is a sequence of \<open>len\<close> bytes, any of which may be the NUL byte, and the
  runtime stores a NUL after the last. \<^verbatim>\<open>strtold\<close> reads a C string, which stops at the
  first NUL; it is an argument here, a function from the C string to the value and the
  number of characters it consumed, so that \<^verbatim>\<open>end\<close> is \<^verbatim>\<open>str\<close> plus that number.
  The stub keeps the length of the string in an \<^verbatim>\<open>int\<close>: the conversion keeps the low
  32 bits of the length.
\<close>

definition NUL :: char where
  "NUL = CHR 0x00"

definition c_string :: "string \<Rightarrow> string" where
  "c_string str = takeWhile (\<lambda>c. c \<noteq> NUL) str"

definition deref :: "string \<Rightarrow> nat \<Rightarrow> char" where
  "deref str i = (str @ [NUL]) ! i"

definition ctypes_ldouble_of_string :: "(string \<Rightarrow> ldouble \<times> nat) \<Rightarrow> string \<Rightarrow> error + value" where
  "ctypes_ldouble_of_string strtold v =
     (let str = v; len = (of_nat (length v) :: 32 word)
      in if 0 = len then Inl (Invalid_argument ''LDouble.of_string'')
         else (let (r, endp) = strtold (c_string str)
               in if deref str endp \<noteq> NUL then Inl (Invalid_argument ''LDouble.of_string'')
                  else Inr (ctypes_copy_ldouble r)))"

section \<open>Conversions between a wider format and the 64-bit double\<close>

text \<open>
  The conversions of IEEE arithmetic in its default rounding mode, for a format with an
  exponent field of \<open>E\<close> bits (more than 11) and a fraction of \<open>F\<close> bits (at least 52).
  Narrowing rounds the mantissa to the nearest double, to the even one in a tie; a value
  beyond the range of the double becomes an infinity, a value below its subnormal range a
  zero, and a NaN keeps its sign and the leading bits of its payload and becomes quiet.
  Widening is exact. Where the result has no definite bits (narrowing the encodings that
  only the Intel format has, widening a subnormal, which needs normalising) the functions
  are left open.
\<close>

definition round_half_even :: "nat \<Rightarrow> nat \<Rightarrow> nat" where
  "round_half_even m k =
     (let q = m div 2 ^ k; r = m mod 2 ^ k
      in if 2 ^ k < 2 * r \<or> (2 * r = 2 ^ k \<and> odd q) then q + 1 else q)"

fun narrow_to_binary64 :: "nat \<Rightarrow> nat \<Rightarrow> ldouble \<Rightarrow> ldouble" where
  "narrow_to_binary64 E F (Zero s) = Zero s"
| "narrow_to_binary64 E F (Infinity s) = Infinity s"
| "narrow_to_binary64 E F (NaN s p) = NaN s ((2 ^ 51) OR (p div 2 ^ (F - 52)))"
| "narrow_to_binary64 E F (Subnormal s m) = Zero s"
| "narrow_to_binary64 E F (Normal s e m) =
     (let u = int e - (2 ^ (E - 1) - 1)
      in if u < - 1022 then
           (let q = round_half_even (2 ^ F + m) (F - 52 + nat (- 1022 - u))
            in if q = 0 then Zero s
               else if q < 2 ^ 52 then Subnormal s q
               else Normal s 1 (q - 2 ^ 52))
         else
           (let q = round_half_even (2 ^ F + m) (F - 52);
                u' = (if q = 2 ^ 53 then u + 1 else u);
                q' = (if q = 2 ^ 53 then 2 ^ 52 else q)
            in if 1023 < u' then Infinity s
               else Normal s (nat (u' + 1023)) (q' - 2 ^ 52)))"

fun widen_from_binary64 :: "nat \<Rightarrow> nat \<Rightarrow> ldouble \<Rightarrow> ldouble" where
  "widen_from_binary64 E F (Zero s) = Zero s"
| "widen_from_binary64 E F (Infinity s) = Infinity s"
| "widen_from_binary64 E F (NaN s p) = NaN s (p * 2 ^ (F - 52))"
| "widen_from_binary64 E F (Normal s e m) =
     Normal s (nat (int e - 1023 + (2 ^ (E - 1) - 1))) (m * 2 ^ (F - 52))"

section \<open>Concrete platforms and values\<close>

text \<open>
  Linux on x86-64: the Intel extended format in 16 bytes of storage, little-endian.
\<close>

definition x86_64_linux :: platform where
  "x86_64_linux =
     \<lparr>LDBL_MANT_DIG = 64, LDOUBLE_STORAGE_BYTES = 16, ARCH_BIG_ENDIAN = False,
      sizeof_double = 8, NetBSD = False, ANDROID = False, FreeBSD = False,
      narrow_to_double = narrow_to_binary64 15 63,
      widen_to_ldouble = widen_from_binary64 15 63\<rparr>"


definition x86_64_netbsd :: platform where
  "x86_64_netbsd = x86_64_linux\<lparr>NetBSD := True\<rparr>"

definition x86_64_freebsd :: platform where
  "x86_64_freebsd = x86_64_linux\<lparr>FreeBSD := True\<rparr>"

text \<open>The constants \<^verbatim>\<open>2.0L\<close> and \<^verbatim>\<open>3.0L\<close>.\<close>

definition ld_two :: "platform \<Rightarrow> ldouble" where
  "ld_two plat = Normal False (2 ^ (exp_bits plat - 1)) 0"

definition ld_three :: "platform \<Rightarrow> ldouble" where
  "ld_three plat = Normal False (2 ^ (exp_bits plat - 1)) (2 ^ (frac_bits plat - 1))"

text \<open>
  A function that agrees with \<^verbatim>\<open>strtold\<close> on the strings it is applied to below: it
  converts a leading \<^verbatim>\<open>inf\<close> and nothing else.
\<close>

definition strtold_inf :: "string \<Rightarrow> ldouble \<times> nat" where
  "strtold_inf s = (if take 3 s = ''inf'' then (Infinity False, 3) else (Zero False, 0))"


section \<open>Facts about the comparison\<close>

lemmas cmp_defs = ldouble_cmp_def ld_lt_def ld_gt_def ld_ne_def ld_eq_def isnan_def iszero_def

lemma ldouble_cmp_zeros: "ldouble_cmp (Zero s) (Zero t) st = (0, st)"
  by (simp add: cmp_defs)

text \<open>
  Whatever the two complex values are, the complex comparison is the scalar comparison of
  their real parts: the imaginary parts it compares are both the zero of the conversion.
\<close>

lemma ldouble_complex_cmp_val_real_only:
  "ldouble_complex_cmp_val v1 v2 st
     = ldouble_cmp (ldouble_custom_val v1) (ldouble_custom_val v2) st"
  by (simp add: ldouble_complex_cmp_val_def complex_of_ldouble_def ldouble_cmp_zeros
      split: prod.splits)

section \<open>Facts about the x86-64 platform\<close>

lemma x86:
  "LDOUBLE_VALUE_BYTES x86_64_linux = 10"
  "exp_bits x86_64_linux = 15"
  "frac_bits x86_64_linux = 63"
  "int_bit x86_64_linux"
  "\<not> ARCH_BIG_ENDIAN x86_64_linux"
  "LDBL_MANT_DIG x86_64_linux = 64"
  by (simp_all add: x86_64_linux_def LDOUBLE_VALUE_BYTES_def exp_bits_def frac_bits_def
      int_bit_def)

lemma x86_consts:
  "ld_one x86_64_linux = Normal False 16383 0"
  "ld_two x86_64_linux = Normal False 16384 0"
  "ld_three x86_64_linux = Normal False 16384 4611686018427387904"
  "nanl_empty x86_64_linux = NaN False 4611686018427387904"
  by (simp_all add: ld_one_def ld_two_def ld_three_def nanl_empty_def x86)

lemma le_bytes_numeral:
  "le_bytes (numeral k) n = of_nat (n mod 256) # le_bytes (pred_numeral k) (n div 256)"
  by (simp only: numeral_eq_Suc [of k] le_bytes.simps)

lemma x86_mem:
  "ld_mem x86_64_linux (Normal False 16383 0) = [0, 0, 0, 0, 0, 0, 0, 128, 255, 63]"
  "ld_mem x86_64_linux (Normal False 16384 0) = [0, 0, 0, 0, 0, 0, 0, 128, 0, 64]"
  "ld_mem x86_64_linux (Normal False 16384 4611686018427387904)
     = [0, 0, 0, 0, 0, 0, 0, 192, 0, 64]"
  "ld_mem x86_64_linux (Zero False) = [0, 0, 0, 0, 0, 0, 0, 0, 0, 0]"
  "ld_mem x86_64_linux (Zero True) = [0, 0, 0, 0, 0, 0, 0, 0, 0, 128]"
  "ld_mem x86_64_linux (NaN False 4611686018427387904)
     = [0, 0, 0, 0, 0, 0, 0, 192, 255, 127]"
  by (simp_all add: ld_mem_def x86 native_order_def fp_bits_def mant_width_def le_bytes_numeral)

section \<open>Claims about the comparison\<close>

text \<open>
  C1. The claim: the complex comparison orders by the real parts and breaks ties on the
  imaginary parts, so some pair with equal real parts and unequal imaginary parts is not
  EQUAL. The code at 1 + 2i and 1 + 3i on x86-64: the complex comparison returns 0,
  although the scalar comparison of the imaginary parts 2 and 3 returns -1.
\<close>

theorem complex_cmp_ignores_imaginary_part:
  "ldouble_complex_cmp_val
     (Val_ldouble_complex \<lparr>creall = ld_one x86_64_linux, cimagl = ld_two x86_64_linux\<rparr>)
     (Val_ldouble_complex \<lparr>creall = ld_one x86_64_linux, cimagl = ld_three x86_64_linux\<rparr>)
     initial_state = (0, initial_state)
   \<and> ldouble_cmp (ld_two x86_64_linux) (ld_three x86_64_linux) initial_state
     = (- 1, initial_state)"
  by (simp add: ldouble_complex_cmp_val_real_only cmp_defs x86_consts)

text \<open>
  C3, as stated: comparing a NaN with 1.0 returns GREATER (1) and comparing 1.0 with a NaN
  returns LESS (-1). On x86-64, with the NaN of \<^verbatim>\<open>nanl("")\<close>, the code returns neither.
\<close>

theorem ldouble_cmp_nan_one_not_greater:
  "fst (ldouble_cmp (nanl_empty x86_64_linux) (ld_one x86_64_linux) initial_state) \<noteq> 1
   \<and> fst (ldouble_cmp (ld_one x86_64_linux) (nanl_empty x86_64_linux) initial_state) \<noteq> - 1"
  by (simp add: cmp_defs x86_consts)

text \<open>
  C3, amended: comparing two NaNs (of any sign and payload) returns EQUAL (0); comparing a
  NaN with 1.0 returns LESS (-1); comparing 1.0 with a NaN returns GREATER (1); and each
  of the three sets the unordered flag.
\<close>

theorem ldouble_cmp_nan_cases:
  "ldouble_cmp (NaN s1 p1) (NaN s2 p2) st = (0, st\<lparr>caml_compare_unordered := True\<rparr>)
   \<and> ldouble_cmp (NaN s1 p1) (ld_one plat) st = (- 1, st\<lparr>caml_compare_unordered := True\<rparr>)
   \<and> ldouble_cmp (ld_one plat) (NaN s1 p1) st = (1, st\<lparr>caml_compare_unordered := True\<rparr>)"
  by (simp add: cmp_defs ld_one_def)

section \<open>Claims about normalisation\<close>

text \<open>
  C7. Once \<^verbatim>\<open>ldouble_init\<close> has run, normalising twice gives the same bits as normalising
  once, and normalisation sends every zero to positive zero, every NaN to the NaN of
  \<^verbatim>\<open>nanl("")\<close>, and every other value to itself.
\<close>

theorem norm_idempotent:
  "norm (ldouble_init plat st) (norm (ldouble_init plat st) x) = norm (ldouble_init plat st) x
   \<and> norm (ldouble_init plat st) x =
       (case fpclassify x of
          FP_ZERO \<Rightarrow> Zero False
        | FP_NAN \<Rightarrow> nanl_empty plat
        | _ \<Rightarrow> x)"
  by (cases x) (simp_all add: norm_def ldouble_init_def nanl_empty_def)

text \<open>
  Before \<^verbatim>\<open>ldouble_init\<close> the static is zero and a NaN is normalised to positive zero;
  normalisation is idempotent there too.
\<close>

lemma norm_idempotent_before_init:
  "norm initial_state (norm initial_state x) = norm initial_state x"
  by (cases x) (simp_all add: norm_def initial_state_def)

section \<open>Claims about functions missing from libm\<close>

text \<open>
  C8. On NetBSD the stubs for \<^verbatim>\<open>expm1l\<close>, \<^verbatim>\<open>log1pl\<close> and \<^verbatim>\<open>remainderl\<close>, and on
  Android and FreeBSD the stubs for \<^verbatim>\<open>cexpl\<close>, \<^verbatim>\<open>clogl\<close> and \<^verbatim>\<open>cpowl\<close>, raise a
  failure whose message names the function, for every argument and whatever the function
  of libm would be; they return no value.
\<close>

theorem missing_libm_function_fails:
  "(NetBSD plat \<longrightarrow>
      ctypes_ldouble_expm1l plat expm1l a
        = Inl (Failure ''ctypes: expm1l does not exist on current platform'')
    \<and> ctypes_ldouble_log1pl plat log1pl a
        = Inl (Failure ''ctypes: log1pl does not exist on current platform'')
    \<and> ctypes_ldouble_remainderl plat remainderl a b
        = Inl (Failure ''ctypes: remainderl does not exist on current platform''))
   \<and> (ANDROID plat \<or> FreeBSD plat \<longrightarrow>
      ctypes_ldouble_complex_cexpl plat cexpl z
        = Inl (Failure ''ctypes: cexpl does not exist on current platform'')
    \<and> ctypes_ldouble_complex_clogl plat clogl z
        = Inl (Failure ''ctypes: clogl does not exist on current platform'')
    \<and> ctypes_ldouble_complex_cpowl plat cpowl z w
        = Inl (Failure ''ctypes: cpowl does not exist on current platform''))"
  by (simp add: ctypes_ldouble_expm1l_def ctypes_ldouble_log1pl_def
      ctypes_ldouble_remainderl_def ctypes_ldouble_complex_cexpl_def
      ctypes_ldouble_complex_clogl_def ctypes_ldouble_complex_cpowl_def
      FN1FAIL_def FN2FAIL_def complex_FN1FAIL_def complex_FN2FAIL_def)

text \<open>
  The same on NetBSD and on FreeBSD for x86-64, at a zero and at an infinity.
\<close>

theorem missing_libm_function_fails_witness:
  "NetBSD x86_64_netbsd
   \<and> ctypes_ldouble_expm1l x86_64_netbsd (\<lambda>x. x) (Val_ldouble (Zero False))
       = Inl (Failure ''ctypes: expm1l does not exist on current platform'')
   \<and> ctypes_ldouble_remainderl x86_64_netbsd (\<lambda>x y. x) (Val_ldouble (Infinity False))
         (Val_ldouble (Zero True))
       = Inl (Failure ''ctypes: remainderl does not exist on current platform'')
   \<and> FreeBSD x86_64_freebsd
   \<and> ctypes_ldouble_complex_cexpl x86_64_freebsd (\<lambda>z. z)
         (Val_ldouble_complex \<lparr>creall = Infinity True, cimagl = Zero False\<rparr>)
       = Inl (Failure ''ctypes: cexpl does not exist on current platform'')"
proof -
  have n: "NetBSD x86_64_netbsd" and f: "FreeBSD x86_64_freebsd"
    by (simp_all add: x86_64_netbsd_def x86_64_freebsd_def)
  show ?thesis
    using n f
      missing_libm_function_fails [of x86_64_netbsd "\<lambda>x. x" "Val_ldouble (Zero False)"]
      missing_libm_function_fails [of x86_64_netbsd _ "Val_ldouble (Infinity False)" _
        "\<lambda>x y. x" "Val_ldouble (Zero True)"]
      missing_libm_function_fails [of x86_64_freebsd _ _ _ _ _ "\<lambda>z. z"
        "Val_ldouble_complex \<lparr>creall = Infinity True, cimagl = Zero False\<rparr>"]
    by simp
qed

section \<open>Claims about the tag byte\<close>

text \<open>
  C6. When the first byte of the input is not the mantissa digit count of the platform,
  the scalar and the complex deserialiser raise the deserialisation error; only the tag
  byte has been read, so the whole payload is still in the input, and the destination
  holds what it held before.
\<close>

theorem deserialize_rejects_foreign_tag:
  assumes "unat tag \<noteq> LDBL_MANT_DIG plat"
  shows "ldouble_deserialize plat d (tag # payload)
       = (Inl (Deserialize_error ''invalid long double size''), d, payload)
     \<and> ldouble_complex_deserialize plat dc (tag # payload)
       = (Inl (Deserialize_error ''invalid long double size''), dc, payload)"
  using assms
  by (simp add: ldouble_deserialize_def ldouble_complex_deserialize_def
      caml_deserialize_uint_1_def)

text \<open>On x86-64, whose tag is 64, an input tagged 113 is rejected.\<close>

theorem deserialize_rejects_foreign_tag_witness:
  "unat (113 :: byte) \<noteq> LDBL_MANT_DIG x86_64_linux
   \<and> ldouble_deserialize x86_64_linux (Zero False) [113, 1, 2, 3]
       = (Inl (Deserialize_error ''invalid long double size''), Zero False, [1, 2, 3])
   \<and> ldouble_complex_deserialize x86_64_linux
         \<lparr>creall = Zero False, cimagl = Zero False\<rparr> [113, 1, 2, 3]
       = (Inl (Deserialize_error ''invalid long double size''),
          \<lparr>creall = Zero False, cimagl = Zero False\<rparr>, [1, 2, 3])"
proof -
  have t: "unat (113 :: byte) \<noteq> LDBL_MANT_DIG x86_64_linux"
    by (simp add: x86)
  show ?thesis
    using t deserialize_rejects_foreign_tag [OF t, of "Zero False" "[1, 2, 3]"
        "\<lparr>creall = Zero False, cimagl = Zero False\<rparr>"]
    by simp
qed

section \<open>Claims about the complex constructor\<close>




section \<open>Claims about parsing\<close>

lemma deref_c_string:
  assumes "k \<le> length (c_string v)"
  shows "(deref v k \<noteq> NUL) = (k < length (c_string v))"
proof (cases "k < length (c_string v)")
  case True
  then have "c_string v ! k \<in> set (c_string v)" by simp
  then have "c_string v ! k \<noteq> NUL"
    unfolding c_string_def by (auto dest: set_takeWhileD)
  moreover have "c_string v ! k = v ! k"
    using True unfolding c_string_def by (rule takeWhile_nth)
  moreover have "k < length v"
    using True length_takeWhile_le [of "\<lambda>c. c \<noteq> NUL" v] by (simp add: c_string_def)
  ultimately show ?thesis using True by (simp add: deref_def nth_append)
next
  case False
  with assms have k: "k = length (c_string v)" by simp
  show ?thesis
  proof (cases "length (c_string v) < length v")
    case True
    then have "\<not> (v ! k \<noteq> NUL)"
      unfolding k c_string_def by (rule nth_length_takeWhile)
    then show ?thesis using True k by (simp add: deref_def nth_append)
  next
    case False
    then have "length (c_string v) = length v"
      using length_takeWhile_le [of "\<lambda>c. c \<noteq> NUL" v] by (simp add: c_string_def)
    then show ?thesis using k by (simp add: deref_def nth_append)
  qed
qed

lemma c_string_without_NUL: "NUL \<notin> set v \<Longrightarrow> c_string v = v"
  by (auto simp add: c_string_def)

text \<open>
  What the stub does on every input, given the contract of \<^verbatim>\<open>strtold\<close> (the end pointer
  stays inside the C string): it fails when the length, as an \<^verbatim>\<open>int\<close>, is zero, or when
  the parsing stops before the first NUL byte of the input (before its end, when it has
  none); otherwise it returns the parsed value.
\<close>

lemma of_string_cases:
  assumes "snd (strtold (c_string v)) \<le> length (c_string v)"
  shows "ctypes_ldouble_of_string strtold v =
     (if (of_nat (length v) :: 32 word) = 0
         \<or> snd (strtold (c_string v)) < length (c_string v)
      then Inl (Invalid_argument ''LDouble.of_string'')
      else Inr (ctypes_copy_ldouble (fst (strtold (c_string v)))))"
  using deref_c_string [OF assms]
  by (auto simp add: ctypes_ldouble_of_string_def Let_def split: prod.splits)

lemma int_length_zero:
  assumes "length v < 2 ^ 32"
  shows "((of_nat (length v) :: 32 word) = 0) = (v = [])"
proof -
  have "\<not> 2 ^ 32 dvd length v" if "v \<noteq> []"
    using that assms by (auto dest: dvd_imp_le)
  then show ?thesis
    by (auto simp add: word_of_nat_eq_0_iff)
qed

text \<open>
  On an input shorter than \<open>2 ^ 32\<close> without a NUL byte the C string is the whole input,
  and the stub fails exactly when the input is empty or the parsing leaves characters
  unconsumed.
\<close>

lemma of_string_without_NUL:
  assumes "NUL \<notin> set v" and "length v < 2 ^ 32" and "snd (strtold v) \<le> length v"
  shows "ctypes_ldouble_of_string strtold v =
     (if v = [] \<or> snd (strtold v) < length v
      then Inl (Invalid_argument ''LDouble.of_string'')
      else Inr (ctypes_copy_ldouble (fst (strtold v))))"
proof -
  have c: "c_string v = v" using assms(1) by (rule c_string_without_NUL)
  show ?thesis
    using of_string_cases [of strtold v] assms(3)
    by (simp add: c int_length_zero [OF assms(2)])
qed

text \<open>
  A string of \<open>2 ^ 32\<close> characters has length zero as an \<^verbatim>\<open>int\<close>, and the stub rejects
  it as if it were empty, whatever it holds.
\<close>

lemma of_string_length_wraps:
  assumes "length v = 2 ^ 32"
  shows "ctypes_ldouble_of_string strtold v = Inl (Invalid_argument ''LDouble.of_string'')"
  using assms by (simp add: ctypes_ldouble_of_string_def)

text \<open>
  C9. The claim: parsing fails exactly when the input is empty or has characters that the
  numeric parsing did not consume. The code at the input \<^verbatim>\<open>inf\<close>, a NUL byte, \<^verbatim>\<open>x\<close>:
  the input is not empty and the parsing consumes three of its five characters, yet the
  stub returns the infinity, because it looks for the end of the input at the first NUL.
\<close>

theorem of_string_embedded_nul:
  "ctypes_ldouble_of_string strtold_inf (''inf'' @ [NUL, CHR ''x''])
     = Inr (Val_ldouble (Infinity False))
   \<and> ''inf'' @ [NUL, CHR ''x''] \<noteq> []
   \<and> snd (strtold_inf (c_string (''inf'' @ [NUL, CHR ''x'']))) < length (''inf'' @ [NUL, CHR ''x''])"
  by (simp add: ctypes_ldouble_of_string_def strtold_inf_def c_string_def deref_def NUL_def
      ctypes_copy_ldouble_def)

text \<open>The inputs \<^verbatim>\<open>infx\<close>, with a trailing character, and \<^verbatim>\<open>inf\<close>.\<close>

lemma of_string_examples:
  "ctypes_ldouble_of_string strtold_inf ''infx'' = Inl (Invalid_argument ''LDouble.of_string'')
   \<and> ctypes_ldouble_of_string strtold_inf ''inf'' = Inr (Val_ldouble (Infinity False))"
  by (simp add: ctypes_ldouble_of_string_def strtold_inf_def c_string_def deref_def NUL_def
      ctypes_copy_ldouble_def)

section \<open>Facts about the storage bytes\<close>

lemma length_le_bytes: "length (le_bytes k n) = k"
  by (induction k arbitrary: n) simp_all













text \<open>
  Conversely every pattern of the sign, exponent and mantissa bits is the image of a valid value:
  the value read from the pattern is valid and encodes to the same pattern, so the model has a
  value for each bit pattern an object can hold.
\<close>

lemma split_mantissa:
  fixes a F :: nat
  shows "a = (a div 2 ^ F) * 2 ^ F + a mod 2 ^ F"
  by (rule div_mult_mod_eq [symmetric])

lemma fp_of_bits_fields:
  fixes E F n :: nat and ib :: bool
  assumes E: "0 < E"
  shows "fp_valid E F ib (fp_of_bits E F ib n)"
    and "exp_field E (fp_of_bits E F ib n) = n div 2 ^ mant_width F ib mod 2 ^ E"
    and "mant_field F ib (fp_of_bits E F ib n) = n mod 2 ^ mant_width F ib"
    and "signbit (fp_of_bits E F ib n) = (n div 2 ^ (E + mant_width F ib) mod 2 = 1)"
proof -
  define M where M_def: "M = mant_width F ib"
  define x where x_def: "x = fp_of_bits E F ib n"
  let ?a = "n mod 2 ^ M"
  let ?e = "n div 2 ^ M mod 2 ^ E"
  let ?f = "n mod 2 ^ F"
  have f: "?a mod 2 ^ F = ?f"
    by (simp add: M_def mant_width_def mod_mod_cancel le_imp_power_dvd)
  have flt: "?f < 2 ^ F" by simp
  have elt: "?e < 2 ^ E" by simp
  have a: "?a = (?a div 2 ^ F) * 2 ^ F + ?f"
    using split_mantissa [of ?a F] by (simp only: f)
  have j: "?a div 2 ^ F < 2" if ib
  proof -
    have "n mod (2 ^ F * 2) < 2 ^ F * 2" by (rule mod_less_divisor) simp
    then have "?a < 2 ^ F * 2" using that by (simp add: M_def mant_width_def mult.commute)
    then show ?thesis by (simp add: less_mult_imp_div_less)
  qed
  have nj: "?a = ?f" if "\<not> ib"
    using that by (simp add: M_def mant_width_def)
  have top: "(2::nat) ^ E - 1 \<noteq> 0"
  proof -
    have "(2::nat) ^ 1 \<le> 2 ^ E" using E by (intro power_increasing) simp_all
    then show ?thesis by simp
  qed
  have x: "x = (if ?e = 0 then
           (if ib \<and> ?a div 2 ^ F = 1 then Pseudo_denormal (n div 2 ^ (E + M) mod 2 = 1) ?f
            else if ?f = 0 then Zero (n div 2 ^ (E + M) mod 2 = 1)
            else Subnormal (n div 2 ^ (E + M) mod 2 = 1) ?f)
         else if ib \<and> \<not> ?a div 2 ^ F = 1 then Unnormal (n div 2 ^ (E + M) mod 2 = 1) ?e ?f
         else if ?e = 2 ^ E - 1 then
           (if ?f = 0 then Infinity (n div 2 ^ (E + M) mod 2 = 1)
            else NaN (n div 2 ^ (E + M) mod 2 = 1) ?f)
         else Normal (n div 2 ^ (E + M) mod 2 = 1) ?e ?f)"
    unfolding x_def fp_of_bits_def Let_def M_def by (rule refl)
  have sgn: "signbit x = (n div 2 ^ (E + M) mod 2 = 1)"
    unfolding x by simp
  have expo: "exp_field E x = ?e"
    unfolding x by simp
  have below: "?e < 2 ^ E - 1" if "?e \<noteq> 2 ^ E - 1"
  proof -
    have "k < 2 ^ E - 1" if "k < 2 ^ E" and "k \<noteq> 2 ^ E - 1" for k :: nat
      using that by arith
    then show ?thesis using elt that by blast
  qed
  have valid: "fp_valid E F ib x"
    unfolding x using top below by (simp del: One_nat_def)
  have mant: "mant_field F ib x = ?a"
  proof (cases ib)
    case True
    with j have "?a div 2 ^ F = 0 \<or> ?a div 2 ^ F = 1" by auto
    then show ?thesis
    proof
      assume z: "?a div 2 ^ F = 0"
      then have "?a = ?f" using a by simp
      then show ?thesis unfolding x using True z by simp
    next
      assume o: "?a div 2 ^ F = 1"
      then have "?a = 2 ^ F + ?f" using a by simp
      then show ?thesis unfolding x using True o by simp
    qed
  next
    case False
    then show ?thesis unfolding x using nj by simp
  qed
  show "fp_valid E F ib (fp_of_bits E F ib n)"
    using valid unfolding x_def .
  show "exp_field E (fp_of_bits E F ib n) = n div 2 ^ mant_width F ib mod 2 ^ E"
    using expo unfolding x_def M_def .
  show "mant_field F ib (fp_of_bits E F ib n) = n mod 2 ^ mant_width F ib"
    using mant unfolding x_def M_def .
  show "signbit (fp_of_bits E F ib n) = (n div 2 ^ (E + mant_width F ib) mod 2 = 1)"
    using sgn unfolding x_def M_def .
qed

lemma fp_bits_fp_of_bits:
  assumes E: "0 < E" and n: "n < 2 ^ (1 + E + mant_width F ib)"
  shows "fp_bits E F ib (fp_of_bits E F ib n) = n"
proof -
  let ?M = "mant_width F ib"
  have s: "n div 2 ^ (E + ?M) < 2"
    using n by (simp add: less_mult_imp_div_less mult.commute)
  have mid: "n mod 2 ^ (E + ?M) div 2 ^ ?M = n div 2 ^ ?M mod 2 ^ E"
    by (simp add: div_exp_mod_exp_eq add.commute)
  have low: "n mod 2 ^ (E + ?M) mod 2 ^ ?M = n mod 2 ^ ?M"
    by (simp add: mod_mod_cancel le_imp_power_dvd)
  have "n mod 2 ^ (E + ?M) = (n div 2 ^ ?M mod 2 ^ E) * 2 ^ ?M + n mod 2 ^ ?M"
    using split_mantissa [of "n mod 2 ^ (E + ?M)" ?M] by (simp only: mid low)
  moreover have "n = (n div 2 ^ (E + ?M)) * 2 ^ (E + ?M) + n mod 2 ^ (E + ?M)"
    by (rule split_mantissa)
  moreover have "(n div 2 ^ (E + ?M)) * 2 ^ (E + ?M)
      = (if n div 2 ^ (E + ?M) mod 2 = 1 then 2 ^ (E + ?M) else 0)"
  proof -
    from s have "n div 2 ^ (E + ?M) = 0 \<or> n div 2 ^ (E + ?M) = 1" by auto
    then show ?thesis by (rule disjE) simp_all
  qed
  ultimately have "n = (if n div 2 ^ (E + ?M) mod 2 = 1 then 2 ^ (E + ?M) else 0)
      + (n div 2 ^ ?M mod 2 ^ E) * 2 ^ ?M + n mod 2 ^ ?M"
    by (simp only: add.assoc)
  then show ?thesis
    unfolding fp_bits_def fp_of_bits_fields [OF E] by simp
qed




lemma length_ld_mem: "length (ld_mem plat x) = LDOUBLE_VALUE_BYTES plat"
  by (simp add: ld_mem_def native_order_def length_le_bytes)








section \<open>Facts about the platform with an unknown format\<close>





section \<open>Claims about the scalar codec\<close>




section \<open>Claims about the complex codec\<close>

text \<open>
  C5. The claim: the complex serialiser writes the normalised real and imaginary parts, so
  a value with a negative zero component is written as its normalised value is. The code
  at -0 + 0i on x86-64: the sign byte 128 of the negative zero is written, where the
  normalised value has 0, and where the scalar serialiser writes 0 for a negative zero.
\<close>

theorem complex_serialize_not_normalised:
  "fst (ldouble_complex_serialize x86_64_linux
          (Val_ldouble_complex \<lparr>creall = Zero True, cimagl = Zero False\<rparr>) [])
     = [64, 0, 0, 0, 0, 0, 0, 0, 0, 128, 0, 0, 0, 0, 0, 0, 0, 0, 0, 0, 0]
   \<and> fst (ldouble_complex_serialize x86_64_linux
          (Val_ldouble_complex
             \<lparr>creall = norm st (Zero True), cimagl = norm st (Zero False)\<rparr>) [])
     = [64, 0, 0, 0, 0, 0, 0, 0, 0, 0, 0, 0, 0, 0, 0, 0, 0, 0, 0, 0, 0]
   \<and> fst (ldouble_serialize x86_64_linux st (Val_ldouble (Zero True)) [])
     = [64, 0, 0, 0, 0, 0, 0, 0, 0, 0, 0]"
  by (simp add: ldouble_complex_serialize_def ldouble_serialize_def ldouble_serialize_data_def
      complex_of_ldouble_def norm_def x86 x86_mem caml_serialize_int_1_def
      caml_serialize_block_8_def caml_serialize_block_2_def wire_blocks_def)

text \<open>
  Whatever the imaginary part of the boxed value is, the bytes written for it are those of
  positive zero: the serialiser never reads the second element of the block.
\<close>

lemma complex_serialize_drops_imaginary:
  "ldouble_complex_serialize plat (Val_ldouble_complex \<lparr>creall = r, cimagl = i\<rparr>) out
     = ldouble_complex_serialize plat
         (Val_ldouble_complex \<lparr>creall = r, cimagl = Zero False\<rparr>) out"
  by (simp add: ldouble_complex_serialize_def)

section \<open>Facts about the hash words on x86-64\<close>

text \<open>
  The third word of the union holds the last two value bytes and two bytes of padding;
  the mask removes the padding, so the three words mixed into the hash are those of the
  ten value bytes, whatever the padding holds.
\<close>

lemma low16:
  assumes "x < 65536"
  shows "(of_nat (x + 65536 * y) :: 32 word) AND 0xFFFF = of_nat x"
proof -
  have "(of_nat (x + 65536 * y) :: 32 word) AND 0xFFFF = take_bit 16 (of_nat (x + 65536 * y))"
    by (simp add: take_bit_eq_mask mask_eq_exp_minus_1)
  also have "\<dots> = of_nat (take_bit 16 (x + 65536 * y))"
    by (simp add: of_nat_take_bit)
  also have "take_bit 16 (x + 65536 * y) = x"
    using assms by (simp add: take_bit_eq_mod)
  finally show ?thesis .
qed


lemma load_mask:
  "(of_nat (le_nat (b8 # b9 # rest)) :: 32 word) AND 0xFFFF = of_nat (le_nat [b8, b9])"
proof -
  have "unat b8 < 256" "unat b9 < 256"
    using unsigned_less [of b8, where 'a = nat] unsigned_less [of b9, where 'a = nat] by simp_all
  then have small: "unat b8 + 256 * unat b9 < 65536" by simp
  have whole: "le_nat (b8 # b9 # rest) = (unat b8 + 256 * unat b9) + 65536 * le_nat rest"
    by simp
  have low: "le_nat [b8, b9] = unat b8 + 256 * unat b9"
    by simp
  show ?thesis
    unfolding whole low by (rule low16 [OF small])
qed

lemma x86_words:
  "load32 x86_64_linux ([b0, b1, b2, b3, b4, b5, b6, b7, b8, b9] @ pad) 0
     = of_nat (le_nat [b0, b1, b2, b3])"
  "load32 x86_64_linux ([b0, b1, b2, b3, b4, b5, b6, b7, b8, b9] @ pad) 1
     = of_nat (le_nat [b4, b5, b6, b7])"
  "load32 x86_64_linux ([b0, b1, b2, b3, b4, b5, b6, b7, b8, b9] @ pad) 2 AND 0xFFFF
     = of_nat (le_nat [b8, b9])"
  by (simp_all add: load32_def native_order_def x86 load_mask del: le_nat.simps)

lemma x86_mix_hash:
  assumes "ld_mem x86_64_linux (norm st d) = [b0, b1, b2, b3, b4, b5, b6, b7, b8, b9]"
  shows "ldouble_mix_hash x86_64_linux st mix mixd pad h d =
     mix (mix (mix h (of_nat (le_nat [b0, b1, b2, b3]))) (of_nat (le_nat [b4, b5, b6, b7])))
       (of_nat (le_nat [b8, b9]))"
  unfolding ldouble_mix_hash_def Let_def assms
  by (simp only: x86 x86_words) simp

lemma norm_Normal: "norm st (Normal s e m) = Normal s e m"
  by (simp add: norm_def)

lemma x86_hash_values:
  "ldouble_mix_hash x86_64_linux st mix mixd pad h (ld_one x86_64_linux)
     = mix (mix (mix h 0) 0x80000000) 0x3FFF"
  "ldouble_mix_hash x86_64_linux st mix mixd pad h (ld_two x86_64_linux)
     = mix (mix (mix h 0) 0x80000000) 0x4000"
  "ldouble_mix_hash x86_64_linux st mix mixd pad h (ld_three x86_64_linux)
     = mix (mix (mix h 0) 0xC0000000) 0x4000"
proof -
  have m1: "ld_mem x86_64_linux (norm st (Normal False 16383 0))
      = [0, 0, 0, 0, 0, 0, 0, 128, 255, 63]"
    by (simp only: norm_Normal x86_mem)
  have m2: "ld_mem x86_64_linux (norm st (Normal False 16384 0))
      = [0, 0, 0, 0, 0, 0, 0, 128, 0, 64]"
    by (simp only: norm_Normal x86_mem)
  have m3: "ld_mem x86_64_linux (norm st (Normal False 16384 4611686018427387904))
      = [0, 0, 0, 0, 0, 0, 0, 192, 0, 64]"
    by (simp only: norm_Normal x86_mem)
  show "ldouble_mix_hash x86_64_linux st mix mixd pad h (ld_one x86_64_linux)
     = mix (mix (mix h 0) 0x80000000) 0x3FFF"
    unfolding x86_consts x86_mix_hash [OF m1] by simp
  show "ldouble_mix_hash x86_64_linux st mix mixd pad h (ld_two x86_64_linux)
     = mix (mix (mix h 0) 0x80000000) 0x4000"
    unfolding x86_consts x86_mix_hash [OF m2] by simp
  show "ldouble_mix_hash x86_64_linux st mix mixd pad h (ld_three x86_64_linux)
     = mix (mix (mix h 0) 0xC0000000) 0x4000"
    unfolding x86_consts x86_mix_hash [OF m3] by simp
qed

lemma xor_cancel: "(h :: 32 word) XOR (h XOR x) = x" "(x XOR d) XOR d = (x :: 32 word)"
  by (simp_all add: xor.assoc [symmetric]) (simp add: xor.assoc)

lemma xor_inj: "inj ((XOR) (h :: 32 word))" "inj (\<lambda>h :: 32 word. h XOR d)"
proof -
  show "inj ((XOR) h)"
    by (rule inj_on_inverseI [where g = "(XOR) h"]) (simp add: xor_cancel)
  show "inj (\<lambda>h. h XOR d)"
    by (rule inj_on_inverseI [where g = "\<lambda>h. h XOR d"]) (simp add: xor_cancel)
qed

text \<open>
  For scalars in an encoding of the IEEE classes the invariant holds on x86-64: two values
  that \<^verbatim>\<open>ldouble_cmp\<close> finds equal have the same normal form, and so the same hash,
  whatever the padding holds.
\<close>

lemma ldouble_cmp_zero_norm:
  "canonical a \<Longrightarrow> canonical b \<Longrightarrow> fst (ldouble_cmp a b st) = 0
     \<Longrightarrow> norm st' a = norm st' b"
  by (cases a; cases b) (auto simp add: cmp_defs norm_def split: if_splits)

lemma ten_bytes:
  assumes "length (xs :: byte list) = 10"
  shows "\<exists>b0 b1 b2 b3 b4 b5 b6 b7 b8 b9. xs = [b0, b1, b2, b3, b4, b5, b6, b7, b8, b9]"
  using assms by (auto simp add: eval_nat_numeral length_Suc_conv)

lemma x86_mix_hash_padding:
  "ldouble_mix_hash x86_64_linux st mix mixd pad1 h d
     = ldouble_mix_hash x86_64_linux st mix mixd pad2 h d"
proof -
  have "length (ld_mem x86_64_linux (norm st d)) = 10"
    by (simp add: length_ld_mem x86)
  from ten_bytes [OF this] obtain b0 b1 b2 b3 b4 b5 b6 b7 b8 b9 where
    "ld_mem x86_64_linux (norm st d) = [b0, b1, b2, b3, b4, b5, b6, b7, b8, b9]"
    by (elim exE)
  then show ?thesis by (simp only: x86_mix_hash)
qed

lemma x86_scalar_hash_respects_cmp:
  assumes "canonical a" and "canonical b" and "fst (ldouble_cmp a b st) = 0"
  shows "ldouble_hash x86_64_linux st' mix mixd pad1 (Val_ldouble a)
       = ldouble_hash x86_64_linux st' mix mixd pad2 (Val_ldouble b)"
proof -
  have n: "norm st' a = norm st' b"
    using assms by (rule ldouble_cmp_zero_norm)
  have "ldouble_mix_hash x86_64_linux st' mix mixd pad1 0 a
      = ldouble_mix_hash x86_64_linux st' mix mixd pad1 0 b"
    by (simp add: ldouble_mix_hash_def n x86)
  then show ?thesis
    using x86_mix_hash_padding [of st' mix mixd pad1 0 b pad2]
    by (simp add: ldouble_hash_def)
qed

text \<open>
  Among the encodings that only the Intel format has, the invariant does not hold: the
  pseudo-denormal with fraction zero is equal to the smallest normal number, both are
  classified as normal and left alone by \<^verbatim>\<open>norm\<close>, and their exponent bytes differ.
\<close>

lemma pseudo_denormal_equal_hash_apart:
  assumes inj_d: "\<And>h. inj (mix h)"
  shows "ldouble_cmp (Pseudo_denormal False 0) (Normal False 2 0) st \<noteq> (0, st)"
    and "ldouble_cmp (Pseudo_denormal False 0) (Normal False 1 0) st = (0, st)
     \<and> ldouble_hash x86_64_linux st mix mixd pad1 (Val_ldouble (Pseudo_denormal False 0))
       \<noteq> ldouble_hash x86_64_linux st mix mixd pad2 (Val_ldouble (Normal False 1 0))"
proof -
  show "ldouble_cmp (Pseudo_denormal False 0) (Normal False 2 0) st \<noteq> (0, st)"
    by (simp add: cmp_defs)
  have c: "ldouble_cmp (Pseudo_denormal False 0) (Normal False 1 0) st = (0, st)"
    by (simp add: cmp_defs)
  have m1: "ld_mem x86_64_linux (norm st (Pseudo_denormal False 0))
      = [0, 0, 0, 0, 0, 0, 0, 128, 0, 0]"
    by (simp add: norm_def x86 ld_mem_def native_order_def fp_bits_def mant_width_def le_bytes_numeral)
  have m2: "ld_mem x86_64_linux (norm st (Normal False 1 0))
      = [0, 0, 0, 0, 0, 0, 0, 128, 1, 0]"
    by (simp add: norm_def x86 ld_mem_def native_order_def fp_bits_def mant_width_def le_bytes_numeral)
  let ?h = "mix (mix 0 0) 0x80000000"
  have "mix ?h 0 \<noteq> mix ?h 1"
  proof
    assume "mix ?h 0 = mix ?h 1"
    then have "(0 :: 32 word) = 1" by (rule injD [OF inj_d])
    then show False by simp
  qed
  then have "ldouble_hash x86_64_linux st mix mixd pad1 (Val_ldouble (Pseudo_denormal False 0))
       \<noteq> ldouble_hash x86_64_linux st mix mixd pad2 (Val_ldouble (Normal False 1 0))"
    unfolding ldouble_hash_def ldouble_custom_val.simps x86_mix_hash [OF m1] x86_mix_hash [OF m2]
    by simp
  with c show "ldouble_cmp (Pseudo_denormal False 0) (Normal False 1 0) st = (0, st)
     \<and> ldouble_hash x86_64_linux st mix mixd pad1 (Val_ldouble (Pseudo_denormal False 0))
       \<noteq> ldouble_hash x86_64_linux st mix mixd pad2 (Val_ldouble (Normal False 1 0))"
    by simp
qed

section \<open>Claims about hashing\<close>

text \<open>
  C2. The claim: two values that the comparison finds EQUAL have the same hash. The code at
  1 + 2i and 1 + 3i on x86-64: the complex comparison returns 0, and the two hashes differ
  whenever the runtime's mixing function is injective in each of its arguments (as the
  runtime's is), whatever the padding of the unions holds.
\<close>

theorem complex_equal_under_cmp_hash_apart:
  assumes inj_d: "\<And>h. inj (mix h)" and inj_h: "\<And>d. inj (\<lambda>h. mix h d)"
  shows "ldouble_complex_cmp_val
       (Val_ldouble_complex \<lparr>creall = ld_one x86_64_linux, cimagl = ld_two x86_64_linux\<rparr>)
       (Val_ldouble_complex \<lparr>creall = ld_one x86_64_linux, cimagl = ld_three x86_64_linux\<rparr>)
       st = (0, st)
     \<and> ldouble_complex_hash x86_64_linux st mix mixd pad1 pad2
         (Val_ldouble_complex \<lparr>creall = ld_one x86_64_linux, cimagl = ld_two x86_64_linux\<rparr>)
       \<noteq> ldouble_complex_hash x86_64_linux st mix mixd pad3 pad4
         (Val_ldouble_complex \<lparr>creall = ld_one x86_64_linux, cimagl = ld_three x86_64_linux\<rparr>)"
proof
  show "ldouble_complex_cmp_val
       (Val_ldouble_complex \<lparr>creall = ld_one x86_64_linux, cimagl = ld_two x86_64_linux\<rparr>)
       (Val_ldouble_complex \<lparr>creall = ld_one x86_64_linux, cimagl = ld_three x86_64_linux\<rparr>)
       st = (0, st)"
    by (simp add: ldouble_complex_cmp_val_real_only cmp_defs x86_consts)
next
  let ?h = "mix (mix (mix (mix 0 0) 0x80000000) 0x3FFF) 0"
  have "mix ?h 0x80000000 \<noteq> mix ?h 0xC0000000"
  proof
    assume "mix ?h 0x80000000 = mix ?h 0xC0000000"
    then have "(0x80000000 :: 32 word) = 0xC0000000" by (rule injD [OF inj_d])
    then show False by simp
  qed
  moreover have "mix ?h 0x80000000 = mix ?h 0xC0000000"
    if "mix (mix ?h 0x80000000) 0x4000 = mix (mix ?h 0xC0000000) 0x4000"
    using that by (rule injD [OF inj_h])
  ultimately have "mix (mix ?h 0x80000000) 0x4000 \<noteq> mix (mix ?h 0xC0000000) 0x4000"
    by blast
  then show "ldouble_complex_hash x86_64_linux st mix mixd pad1 pad2
         (Val_ldouble_complex \<lparr>creall = ld_one x86_64_linux, cimagl = ld_two x86_64_linux\<rparr>)
       \<noteq> ldouble_complex_hash x86_64_linux st mix mixd pad3 pad4
         (Val_ldouble_complex \<lparr>creall = ld_one x86_64_linux, cimagl = ld_three x86_64_linux\<rparr>)"
    by (simp add: ldouble_complex_hash_def x86_hash_values)
qed

text \<open>With exclusive or as the mixing function and empty padding.\<close>

theorem complex_equal_under_cmp_hash_apart_witness:
  "ldouble_complex_cmp_val
       (Val_ldouble_complex \<lparr>creall = ld_one x86_64_linux, cimagl = ld_two x86_64_linux\<rparr>)
       (Val_ldouble_complex \<lparr>creall = ld_one x86_64_linux, cimagl = ld_three x86_64_linux\<rparr>)
       initial_state = (0, initial_state)
   \<and> ldouble_complex_hash x86_64_linux initial_state (XOR) (\<lambda>h d. h) [] []
         (Val_ldouble_complex \<lparr>creall = ld_one x86_64_linux, cimagl = ld_two x86_64_linux\<rparr>)
       \<noteq> ldouble_complex_hash x86_64_linux initial_state (XOR) (\<lambda>h d. h) [] []
         (Val_ldouble_complex \<lparr>creall = ld_one x86_64_linux, cimagl = ld_three x86_64_linux\<rparr>)"
  using complex_equal_under_cmp_hash_apart
      [of "(XOR)" initial_state "\<lambda>h d. h" "[]" "[]" "[]" "[]"] xor_inj
  by blast

end
